theory Spec2Isabelle
  imports Complex_Main "HOL-Library.Char_ord" "HOL-Library.Sublist"
begin

section \<open>Strings\<close>

text \<open>
  A JavaScript string is a sequence of UTF-16 code units. The model is \<open>string\<close>, a list of
  8-bit characters read as the code units U+0000 .. U+00FF (ASCII and Latin-1); \<open>length\<close> is
  the string's \<open>.length\<close>. Every character the program's patterns and tables mention is ASCII.
\<close>

definition is_line_terminator :: "char \<Rightarrow> bool" where
  \<comment> \<open>LineTerminator below U+0100: LF, CR\<close>
  "is_line_terminator c = (c = CHR 0x0A \<or> c = CHR 0x0D)"

definition is_space :: "char \<Rightarrow> bool" where
  \<comment> \<open>WhiteSpace and LineTerminator below U+0100: TAB, LF, VT, FF, CR, SP, NBSP; this is
      what \<open>\s\<close> matches and what \<open>trim()\<close> strips\<close>
  "is_space c = (c = CHR 0x09 \<or> c = CHR 0x0A \<or> c = CHR 0x0B \<or> c = CHR 0x0C \<or> c = CHR 0x0D
     \<or> c = CHR 0x20 \<or> c = CHR 0xA0)"

definition is_digit :: "char \<Rightarrow> bool" where
  "is_digit c = (CHR ''0'' \<le> c \<and> c \<le> CHR ''9'')"

definition is_upper :: "char \<Rightarrow> bool" where
  "is_upper c = (CHR ''A'' \<le> c \<and> c \<le> CHR ''Z'')"

definition is_lower :: "char \<Rightarrow> bool" where
  "is_lower c = (CHR ''a'' \<le> c \<and> c \<le> CHR ''z'')"

definition is_word :: "char \<Rightarrow> bool" where
  \<comment> \<open>\<open>\w\<close>\<close>
  "is_word c = (is_upper c \<or> is_lower c \<or> is_digit c \<or> c = CHR ''_'')"

text \<open>
  Upper and lower case of a letter differ in bit 5 (value 32), for ASCII and for the Latin-1
  letters U+00C0 .. U+00DE / U+00E0 .. U+00FE alike.
\<close>

fun clear_bit5 :: "char \<Rightarrow> char" where
  "clear_bit5 (Char b0 b1 b2 b3 b4 b5 b6 b7) = Char b0 b1 b2 b3 b4 False b6 b7"

fun set_bit5 :: "char \<Rightarrow> char" where
  "set_bit5 (Char b0 b1 b2 b3 b4 b5 b6 b7) = Char b0 b1 b2 b3 b4 True b6 b7"

definition canonicalize :: "char \<Rightarrow> char" where
  \<comment> \<open>Canonicalize of the \<open>i\<close> flag (upper-casing), as far as it can make a character
      equal to an ASCII one: a non-ASCII code unit never canonicalizes to an ASCII one\<close>
  "canonicalize c = (if is_lower c then clear_bit5 c else c)"

definition lower_ascii :: "char \<Rightarrow> char" where
  "lower_ascii c = (if is_upper c then set_bit5 c else c)"

definition lower_char :: "char \<Rightarrow> char" where
  \<comment> \<open>\<open>toLowerCase\<close> on one code unit below U+0100: A-Z, and U+00C0 .. U+00DE but U+00D7\<close>
  "lower_char c =
     (if is_upper c \<or> (CHR 0xC0 \<le> c \<and> c \<le> CHR 0xDE \<and> c \<noteq> CHR 0xD7) then set_bit5 c else c)"

definition toLowerCase :: "string \<Rightarrow> string" where
  "toLowerCase s = map lower_char s"

definition trim :: "string \<Rightarrow> string" where
  "trim s = rev (dropWhile is_space (rev (dropWhile is_space s)))"

fun split_on :: "char \<Rightarrow> string \<Rightarrow> string list" where
  \<comment> \<open>\<open>s.split(c)\<close> for a one-character separator: never an empty array\<close>
  "split_on d [] = [[]]"
| "split_on d (c # cs) =
     (if c = d then [] # split_on d cs
      else (case split_on d cs of [] \<Rightarrow> [[c]] | w # ws \<Rightarrow> (c # w) # ws))"

fun join_with :: "string \<Rightarrow> string list \<Rightarrow> string" where
  "join_with d [] = []"
| "join_with d [x] = x"
| "join_with d (x # xs) = x @ d @ join_with d xs"

fun includes_str :: "string \<Rightarrow> string \<Rightarrow> bool" where
  \<comment> \<open>\<open>s.includes(t)\<close>\<close>
  "includes_str [] t = (t = [])"
| "includes_str (c # cs) t = (prefix t (c # cs) \<or> includes_str cs t)"

definition startsWith :: "string \<Rightarrow> string \<Rightarrow> bool" where
  "startsWith s t = prefix t s"

section \<open>Regular expressions\<close>

text \<open>
  The patterns of the program, as syntax trees, and the backtracking matcher of ECMAScript
  (non-Unicode mode) on them. \<open>ends r ci ml x\<close> lists, in the order the backtracking matcher
  tries them, the positions at which a match of \<open>r\<close> that starts at \<open>x\<close> can end; the first
  one is the match the matcher reports. A position is the character before it, if any, and
  the rest of the input.
\<close>

datatype cc = CChar char | CRange char char | CSpace | CNotSpace | CDigit | CWord

fun cc_member :: "cc \<Rightarrow> char \<Rightarrow> bool" where
  "cc_member (CChar a) c = (c = a)"
| "cc_member (CRange a b) c = (a \<le> c \<and> c \<le> b)"
| "cc_member CSpace c = is_space c"
| "cc_member CNotSpace c = (\<not> is_space c)"
| "cc_member CDigit c = is_digit c"
| "cc_member CWord c = is_word c"

definition class_member :: "bool \<Rightarrow> cc list \<Rightarrow> char \<Rightarrow> bool" where
  "class_member ci xs c =
     (list_ex (\<lambda>x. cc_member x c) xs \<or>
      (ci \<and> list_ex (\<lambda>x. cc_member x (canonicalize c) \<or> cc_member x (lower_ascii c)) xs))"

datatype re =
    Eps
  | Lit char
  | Dot
  | Cls "cc list"
  | NCls "cc list"
  | Seq re re
  | Alt re re
  | Star re
  | LazyStar re
  | Bol
  | Eol
  | WordB
  | NegLook re

type_synonym pos = "char option \<times> string"

definition word_before :: "char option \<Rightarrow> bool" where
  "word_before p = (case p of None \<Rightarrow> False | Some c \<Rightarrow> is_word c)"

definition word_after :: "string \<Rightarrow> bool" where
  "word_after s = (case s of [] \<Rightarrow> False | c # _ \<Rightarrow> is_word c)"

definition advanced :: "pos \<Rightarrow> pos \<Rightarrow> bool" where
  \<comment> \<open>an iteration of a starred expression that consumes nothing is rejected\<close>
  "advanced x y = (length (snd y) < length (snd x))"

text \<open>
  \<open>r*\<close> and \<open>r*?\<close>: every accepted iteration consumes a character, so at most
  \<open>length (snd x)\<close> iterations happen from \<open>x\<close>; the counter starts there.
\<close>

primrec star :: "(pos \<Rightarrow> pos list) \<Rightarrow> nat \<Rightarrow> pos \<Rightarrow> pos list" where
  "star f 0 x = [x]"
| "star f (Suc n) x = concat (map (star f n) (filter (advanced x) (f x))) @ [x]"

primrec lazy_star :: "(pos \<Rightarrow> pos list) \<Rightarrow> nat \<Rightarrow> pos \<Rightarrow> pos list" where
  "lazy_star f 0 x = [x]"
| "lazy_star f (Suc n) x = x # concat (map (lazy_star f n) (filter (advanced x) (f x)))"

definition step_char :: "(char \<Rightarrow> bool) \<Rightarrow> pos \<Rightarrow> pos list" where
  "step_char P x = (case snd x of [] \<Rightarrow> [] | c # cs \<Rightarrow> if P c then [(Some c, cs)] else [])"

definition lit_eq :: "bool \<Rightarrow> char \<Rightarrow> char \<Rightarrow> bool" where
  "lit_eq ci a c = (if ci then canonicalize c = canonicalize a else c = a)"

definition not_class :: "bool \<Rightarrow> cc list \<Rightarrow> char \<Rightarrow> bool" where
  "not_class ci xs c = (\<not> class_member ci xs c)"

definition not_line_terminator :: "char \<Rightarrow> bool" where
  "not_line_terminator c = (\<not> is_line_terminator c)"

primrec ends :: "re \<Rightarrow> bool \<Rightarrow> bool \<Rightarrow> pos \<Rightarrow> pos list" where
  "ends Eps ci ml x = [x]"
| "ends (Lit a) ci ml x = step_char (lit_eq ci a) x"
| "ends Dot ci ml x = step_char not_line_terminator x"
| "ends (Cls xs) ci ml x = step_char (class_member ci xs) x"
| "ends (NCls xs) ci ml x = step_char (not_class ci xs) x"
| "ends (Seq a b) ci ml x = concat (map (ends b ci ml) (ends a ci ml x))"
| "ends (Alt a b) ci ml x = ends a ci ml x @ ends b ci ml x"
| "ends (Star a) ci ml x = star (ends a ci ml) (length (snd x)) x"
| "ends (LazyStar a) ci ml x = lazy_star (ends a ci ml) (length (snd x)) x"
| "ends Bol ci ml x =
     (if (case fst x of None \<Rightarrow> True | Some c \<Rightarrow> ml \<and> is_line_terminator c) then [x] else [])"
| "ends Eol ci ml x =
     (if (case snd x of [] \<Rightarrow> True | c # _ \<Rightarrow> ml \<and> is_line_terminator c) then [x] else [])"
| "ends WordB ci ml x = (if word_before (fst x) \<noteq> word_after (snd x) then [x] else [])"
| "ends (NegLook a) ci ml x = (if ends a ci ml x = [] then [x] else [])"

text \<open>Pattern syntax: a literal string, \<open>a|b|c\<close>, a sequence, \<open>r+\<close>, and the classes used.\<close>

fun Str :: "string \<Rightarrow> re" where
  "Str [] = Eps"
| "Str [c] = Lit c"
| "Str (c # cs) = Seq (Lit c) (Str cs)"

fun Alts :: "re list \<Rightarrow> re" where
  "Alts [] = Eps"
| "Alts [r] = r"
| "Alts (r # rs) = Alt r (Alts rs)"

fun Seqs :: "re list \<Rightarrow> re" where
  "Seqs [] = Eps"
| "Seqs [r] = r"
| "Seqs (r # rs) = Seq r (Seqs rs)"

definition Plus :: "re \<Rightarrow> re" where
  "Plus r = Seq r (Star r)"

definition Sp :: re where
  \<comment> \<open>\<open>\s\<close>\<close>
  "Sp = Cls [CSpace]"

definition AnyChar :: re where
  \<comment> \<open>\<open>[\s\S]\<close>\<close>
  "AnyChar = Cls [CSpace, CNotSpace]"

definition Words :: "string list \<Rightarrow> re" where
  \<comment> \<open>\<open>(w1|w2|...)\<close>\<close>
  "Words ws = Alts (map Str ws)"

text \<open>
  A \<open>RegExp\<close> object: the pattern, the flags \<open>g\<close>, \<open>i\<close>, \<open>m\<close>, and the mutable
  \<open>lastIndex\<close>.
\<close>

record RegExp =
  source :: re
  global :: bool
  ignoreCase :: bool
  multiline :: bool
  lastIndex :: nat

definition regex :: "re \<Rightarrow> string \<Rightarrow> RegExp" where
  \<comment> \<open>a regular expression literal \<open>/r/flags\<close>: a new object, \<open>lastIndex\<close> 0\<close>
  "regex r flags = \<lparr> source = r, global = (CHR ''g'' \<in> set flags),
     ignoreCase = (CHR ''i'' \<in> set flags), multiline = (CHR ''m'' \<in> set flags), lastIndex = 0 \<rparr>"

fun search :: "re \<Rightarrow> bool \<Rightarrow> bool \<Rightarrow> nat \<Rightarrow> char option \<Rightarrow> string \<Rightarrow> (nat \<times> nat) option" where
  \<comment> \<open>the first index \<open>\<ge> i\<close> at which the pattern matches, and the number of characters
      left after that match\<close>
  "search r ci ml i p s =
     (case ends r ci ml (p, s) of
        y # _ \<Rightarrow> Some (i, length (snd y))
      | [] \<Rightarrow> (case s of [] \<Rightarrow> None | c # cs \<Rightarrow> search r ci ml (Suc i) (Some c) cs))"

definition exec_at :: "RegExp \<Rightarrow> nat \<Rightarrow> string \<Rightarrow> (nat \<times> nat) option" where
  \<comment> \<open>RegExpBuiltinExec from index \<open>i\<close>: the match's start and end index, or no match\<close>
  "exec_at r i s =
     (if length s < i then None
      else (case search (source r) (ignoreCase r) (multiline r) i
                   (if i = 0 then None else Some (s ! (i - 1))) (drop i s) of
              None \<Rightarrow> None
            | Some (b, k) \<Rightarrow> Some (b, length s - k)))"

definition test :: "RegExp \<Rightarrow> string \<Rightarrow> bool \<times> RegExp" where
  \<comment> \<open>\<open>r.test(s)\<close>: with the \<open>g\<close> flag the search starts at \<open>lastIndex\<close>, which becomes the
      end of the match, or 0 when there is none; without it \<open>lastIndex\<close> is not used\<close>
  "test r s =
     (if global r then
        (case exec_at r (lastIndex r) s of
           None \<Rightarrow> (False, r\<lparr>lastIndex := 0\<rparr>)
         | Some (b, e) \<Rightarrow> (True, r\<lparr>lastIndex := e\<rparr>))
      else (exec_at r 0 s \<noteq> None, r))"

definition matches :: "re \<Rightarrow> string \<Rightarrow> string \<Rightarrow> bool" where
  \<comment> \<open>\<open>/r/flags.test(s)\<close> and \<open>s.match(/r/flags)\<close> being non-null, for a literal evaluated
      on the spot: the object is new, so the search starts at 0\<close>
  "matches r flags s = fst (test (regex r flags) s)"

definition match_text :: "re \<Rightarrow> string \<Rightarrow> string \<Rightarrow> string option" where
  \<comment> \<open>\<open>s.match(/r/flags)?.[0]\<close> for a literal without the \<open>g\<close> flag\<close>
  "match_text r flags s =
     (case exec_at (regex r flags) 0 s of
        None \<Rightarrow> None
      | Some (b, e) \<Rightarrow> Some (take (e - b) (drop b s)))"

section \<open>Repository files: which ones are analysed\<close>

datatype file_type = File | Dir

record GitHubFile =
  name :: string
  path :: string
  file_type :: file_type
  download_url :: "string option"
  file_size :: nat

definition LANGUAGE_MAP :: "(string \<times> string) list" where
  "LANGUAGE_MAP = [
     (''.js'', ''javascript''), (''.jsx'', ''jsx''), (''.ts'', ''typescript''), (''.tsx'', ''tsx''),
     (''.py'', ''python''), (''.java'', ''java''), (''.cpp'', ''cpp''), (''.cc'', ''cpp''),
     (''.cxx'', ''cpp''), (''.c++'', ''cpp''), (''.cs'', ''csharp''), (''.go'', ''go''),
     (''.rs'', ''rust''), (''.php'', ''php''), (''.rb'', ''ruby''), (''.swift'', ''swift''),
     (''.kt'', ''kotlin''), (''.scala'', ''scala''), (''.sh'', ''bash''), (''.sql'', ''sql''),
     (''.html'', ''html''), (''.css'', ''css''), (''.scss'', ''scss''), (''.sass'', ''sass''),
     (''.json'', ''json''), (''.yaml'', ''yaml''), (''.yml'', ''yaml''), (''.xml'', ''xml''),
     (''.md'', ''markdown'')]"

definition extension :: "string \<Rightarrow> string option" where
  \<comment> \<open>\<open>filePath.toLowerCase().match(/\.[^.]*$/)?.[0]\<close>\<close>
  "extension filePath =
     match_text (Seqs [Lit CHR ''.'', Star (NCls [CChar CHR ''.'']), Eol]) [] (toLowerCase filePath)"

definition getLanguageFromPath :: "string \<Rightarrow> string" where
  \<comment> \<open>an extension starts with a dot, so it is no inherited property name of the table\<close>
  "getLanguageFromPath filePath =
     (case extension filePath of
        None \<Rightarrow> ''text''
      | Some ext \<Rightarrow> (case map_of LANGUAGE_MAP ext of None \<Rightarrow> ''text'' | Some l \<Rightarrow> l))"

definition codeExtensions :: "string list" where
  "codeExtensions = [''.js'', ''.jsx'', ''.ts'', ''.tsx'', ''.py'', ''.java'', ''.cpp'', ''.cc'',
     ''.cxx'', ''.c++'', ''.cs'', ''.go'', ''.rs'', ''.php'', ''.rb'', ''.swift'', ''.kt'',
     ''.scala'', ''.vue'', ''.svelte'']"

definition js_ts :: re where
  \<comment> \<open>\<open>(js|ts|jsx|tsx)\<close>\<close>
  "js_ts = Words [''js'', ''ts'', ''jsx'', ''tsx'']"

definition entry_point_pattern :: re where
  \<comment> \<open>\<open>/\/(main|index)\.(js|ts|jsx|tsx)$/\<close>\<close>
  "entry_point_pattern = Seqs [Lit CHR ''/'', Words [''main'', ''index''], Lit CHR ''.'', js_ts, Eol]"

definition app_pattern :: re where
  \<comment> \<open>\<open>/App\.(js|ts|jsx|tsx)$/\<close>\<close>
  "app_pattern = Seqs [Str ''App.'', js_ts, Eol]"

definition excludePatterns :: "re list" where
  "excludePatterns = [
     Str ''/components/ui/'',
     Str ''/ui/'',
     Str ''.shadcn/'',
     Str ''node_modules/'',
     Str ''dist/'',
     Str ''build/'',
     Str ''.next/'',
     Str ''.nuxt/'',
     Str ''coverage/'',
     Str ''.generated.'',
     Str ''.gen.'',
     Seq (Str ''.d.ts'') Eol,
     Seq (Str ''types.ts'') Eol,
     Seq (Str ''index.d.ts'') Eol,
     Str ''tailwind.config.'',
     Str ''vite.config.'',
     Str ''webpack.config.'',
     Str ''next.config.'',
     Str ''nuxt.config.'',
     Str ''rollup.config.'',
     Str ''babel.config.'',
     Str ''jest.config.'',
     Str ''vitest.config.'',
     Str ''postcss.config.'',
     Str ''eslint.config.'',
     Str ''prettier.config.'',
     Seq (Str ''package.json'') Eol,
     Seq (Str ''package-lock.json'') Eol,
     Seq (Str ''yarn.lock'') Eol,
     Seq (Str ''pnpm-lock.yaml'') Eol,
     Seq (Str ''bun.lockb'') Eol,
     entry_point_pattern,
     app_pattern,
     Seqs [Lit CHR ''.'', Words [''test'', ''spec''], Lit CHR ''.'', js_ts, Eol],
     Str ''__tests__/'',
     Str ''.test/'',
     Seq (Str ''.md'') Eol,
     Seq (Str ''.mdx'') Eol,
     Str ''/.'',
     Str ''.git/'',
     Str ''.vscode/'',
     Str ''.idea/'']"

definition shouldAnalyzeFile :: "string \<Rightarrow> bool" where
  "shouldAnalyzeFile filePath =
     (case extension filePath of
        None \<Rightarrow> False
      | Some ext \<Rightarrow>
          if \<not> List.member codeExtensions ext then False
          else if list_ex (\<lambda>pattern. matches pattern [] filePath) excludePatterns then False
          else if includes_str filePath ''src/'' \<and>
                  (matches entry_point_pattern [] filePath \<or> matches app_pattern [] filePath)
          then False
          else True)"

section \<open>Numbers\<close>

text \<open>
  A JavaScript number is an IEEE 754 binary64 value, and every arithmetic operation rounds its
  exact result to the nearest one, ties to even. The model is a real number together with that
  rounding, \<open>rnd\<close>, applied after each operation: 53 significant bits, the exponent range
  left unbounded (the scores, ratios and percentages of this program stay far from overflow
  and underflow, and a division by zero is written out where the source can reach one).
  Counts and lengths are natural numbers below \<open>2 ^ 53\<close>, which are exact.
\<close>

definition rhe :: "real \<Rightarrow> int" where
  \<comment> \<open>round to the nearest integer, a tie to the even one\<close>
  "rhe q = (let f = \<lfloor>q\<rfloor>; r = q - of_int f in
     if r < 1/2 then f else if 1/2 < r then f + 1 else if even f then f else f + 1)"

function bexp :: "real \<Rightarrow> int" where
  \<comment> \<open>the binary exponent \<open>e\<close> of a positive number: \<open>2 ^ e \<le> x < 2 ^ (e + 1)\<close>\<close>
  "bexp x = (if x \<le> 0 then 0 else if 2 \<le> x then bexp (x / 2) + 1 else if x < 1 then bexp (2 * x) - 1 else 0)"
  by pat_completeness auto
termination
proof (relation "measure (\<lambda>x. nat \<bar>\<lfloor>log 2 x\<rfloor>\<bar>)")
  show "wf (measure (\<lambda>x. nat \<bar>\<lfloor>log 2 x\<rfloor>\<bar>))" by simp
next
  fix x :: real assume a: "\<not> x \<le> 0" "2 \<le> x"
  then have "log 2 (x / 2) = log 2 x - 1" by (simp add: log_divide)
  then have f: "\<lfloor>log 2 (x / 2)\<rfloor> = \<lfloor>log 2 x\<rfloor> - 1" by simp
  from a have "1 \<le> log 2 x" by (simp add: le_log_iff)
  then have "1 \<le> \<lfloor>log 2 x\<rfloor>" by linarith
  then have "nat \<bar>\<lfloor>log 2 (x / 2)\<rfloor>\<bar> < nat \<bar>\<lfloor>log 2 x\<rfloor>\<bar>" unfolding f by linarith
  then show "(x / 2, x) \<in> measure (\<lambda>x. nat \<bar>\<lfloor>log 2 x\<rfloor>\<bar>)"
    unfolding in_measure .
next
  fix x :: real assume a: "\<not> x \<le> 0" "\<not> 2 \<le> x" "x < 1"
  then have "log 2 (2 * x) = log 2 x + 1" by (simp add: log_mult)
  then have f: "\<lfloor>log 2 (2 * x)\<rfloor> = \<lfloor>log 2 x\<rfloor> + 1" by simp
  from a have "log 2 x < 0" by simp
  then have "\<lfloor>log 2 x\<rfloor> < 0" by linarith
  then have "nat \<bar>\<lfloor>log 2 (2 * x)\<rfloor>\<bar> < nat \<bar>\<lfloor>log 2 x\<rfloor>\<bar>" unfolding f by linarith
  then show "(2 * x, x) \<in> measure (\<lambda>x. nat \<bar>\<lfloor>log 2 x\<rfloor>\<bar>)"
    unfolding in_measure .
qed

definition rnd :: "real \<Rightarrow> real" where
  "rnd x = (if x = 0 then 0 else
     let e = bexp \<bar>x\<bar>; u = 2 powi (e - 52) in sgn x * of_int (rhe (\<bar>x\<bar> / u)) * u)"

definition fadd :: "real \<Rightarrow> real \<Rightarrow> real" where
  "fadd a b = rnd (a + b)"

definition fmul :: "real \<Rightarrow> real \<Rightarrow> real" where
  "fmul a b = rnd (a * b)"

definition fdiv :: "real \<Rightarrow> real \<Rightarrow> real" where
  \<comment> \<open>used with a divisor that is not zero\<close>
  "fdiv a b = rnd (a / b)"

definition js :: "real \<Rightarrow> real" where
  \<comment> \<open>a decimal literal of the source: the binary64 value nearest to it\<close>
  "js x = rnd x"

definition ratio_gt :: "nat \<Rightarrow> nat \<Rightarrow> real \<Rightarrow> bool" where
  \<comment> \<open>\<open>a / n > t\<close> for two counts and a positive threshold: \<open>0 / 0\<close> is NaN, which
      compares false, and \<open>a / 0\<close> is Infinity for positive \<open>a\<close>\<close>
  "ratio_gt a n t = (if n = 0 then 0 < a else t < fdiv (of_nat a) (of_nat n))"

section \<open>The detection patterns\<close>

record LineAnalysis =
  content :: string
  isAI :: bool
  confidence :: real
  reasons :: "string list"

text \<open>
  The six statistics fields, which \<open>AnalysisResult\<close> and the \<open>overallStats\<close> of a
  \<open>RepositoryAnalysis\<close> have in common.
\<close>

record Stats =
  totalLines :: nat
  aiLines :: nat
  humanLines :: nat
  aiPercentage :: real
  humanPercentage :: real
  overallConfidence :: real

record AnalysisResult = Stats +
  lineAnalysis :: "LineAnalysis list"

record DetectionPattern =
  pattern :: RegExp
  weight :: real
  reason :: string
  aiIndicator :: bool

text \<open>
  The two module-level tables. Their \<open>RegExp\<close> objects are created once, when the module is
  loaded, and live as long as the module: the \<open>lastIndex\<close> each of them carries is the only
  state of the engine, and the tables are that state.
\<close>

record tables =
  AI_PATTERNS :: "DetectionPattern list"
  LANGUAGE_PATTERNS :: "(string \<times> DetectionPattern list) list"

definition em_dash :: string where
  \<comment> \<open>U+2014, which two rationale texts contain, as its UTF-8 bytes; the program never
      inspects a rationale text\<close>
  "em_dash = [CHR 0xE2, CHR 0x80, CHR 0x94]"

definition detection :: "re \<Rightarrow> string \<Rightarrow> real \<Rightarrow> string \<Rightarrow> bool \<Rightarrow> DetectionPattern" where
  "detection r flags w txt ai =
     \<lparr> pattern = regex r flags, weight = js w, reason = txt, aiIndicator = ai \<rparr>"

definition no_usage_ahead :: re where
  \<comment> \<open>\<open>(?!.*Result:|.*Error:|.*Usage:)\<close>\<close>
  "no_usage_ahead = NegLook (Alts [Seq (Star Dot) (Str ''Result:''), Seq (Star Dot) (Str ''Error:''),
     Seq (Star Dot) (Str ''Usage:'')])"

definition console_log_pattern :: re where
  \<comment> \<open>\<open>console\.log\((?!.*Result:|.*Error:|.*Usage:)\<close>\<close>
  "console_log_pattern = Seq (Str ''console.log('') no_usage_ahead"

definition wide_gap :: re where
  \<comment> \<open>\<open>\s{3,}(?!\s*\/\/)\<close>\<close>
  "wide_gap = Seqs [Sp, Sp, Sp, Star Sp, NegLook (Seq (Star Sp) (Str ''//''))]"

definition doubled_punctuation :: re where
  \<comment> \<open>\<open>[;}]\s*[;}]\<close>\<close>
  "doubled_punctuation = Seqs [Cls [CChar CHR '';'', CChar CHR ''}''], Star Sp,
     Cls [CChar CHR '';'', CChar CHR ''}'']]"

definition initial_AI_PATTERNS :: "DetectionPattern list" where
  \<open>initial_AI_PATTERNS = [
     \<comment> \<open>\<open>/\/\/\s*---\s*.*\s*---\s*$/gm\<close>\<close>
     detection (Seqs [Str ''//'', Star Sp, Str ''---'', Star Sp, Star Dot, Star Sp, Str ''---'',
         Star Sp, Eol]) ''gm'' 0.9
       (''Section-based comments with dashes '' @ em_dash @ '' signature of AI structure'') True,
     \<comment> \<open>\<open>/\/\/\s*Generated with.*ChatGPT|\/\/.*AI Code Style Guide/gi\<close>\<close>
     detection (Alt (Seqs [Str ''//'', Star Sp, Str ''Generated with'', Star Dot, Str ''ChatGPT''])
                    (Seqs [Str ''//'', Star Dot, Str ''AI Code Style Guide''])) ''gi'' 1.0
       ''Explicit AI generation comment'' True,
     \<comment> \<open>\<open>/\/\/\s*Step\s*\d+:|\/\/\s*\d+\./gi\<close>\<close>
     detection (Alt (Seqs [Str ''//'', Star Sp, Str ''Step'', Star Sp, Plus (Cls [CDigit]), Lit CHR '':''])
                    (Seqs [Str ''//'', Star Sp, Plus (Cls [CDigit]), Lit CHR ''.''])) ''gi'' 0.8
       ''Contains step-by-step comments typical of AI explanations'' True,
     \<comment> \<open>\<open>/\/\/\s*(Get|Parse|Check|Validate|Perform|Display|Calculate|Initialize|Handle|Process).*$/gm\<close>\<close>
     detection (Seqs [Str ''//'', Star Sp,
         Words [''Get'', ''Parse'', ''Check'', ''Validate'', ''Perform'', ''Display'', ''Calculate'',
                ''Initialize'', ''Handle'', ''Process''],
         Star Dot, Eol]) ''gm'' 0.6
       ''Contains verbose explanatory comments typical of AI generation'' True,
     \<comment> \<open>\<open>/(Usage:|Example:|Error:).*$/gm\<close>\<close>
     detection (Seqs [Words [''Usage:'', ''Example:'', ''Error:''], Star Dot, Eol]) ''gm'' 0.7
       ''Contains structured error messages with examples'' True,
     \<comment> \<open>\<open>/try\s*{[\s\S]*?catch\s*\([^)]*\)\s*{[\s\S]*?(console\.(error|log)|process\.exit)/g\<close>\<close>
     detection (Seqs [Str ''try'', Star Sp, Lit CHR ''{'', LazyStar AnyChar, Str ''catch'', Star Sp,
         Lit CHR ''('', Star (NCls [CChar CHR '')'']), Lit CHR '')'', Star Sp, Lit CHR ''{'',
         LazyStar AnyChar,
         Alt (Seq (Str ''console.'') (Words [''error'', ''log''])) (Str ''process.exit'')]) ''g'' 0.6
       (''try/catch with console output in CLI context '' @ em_dash @ '' typical ChatGPT pattern'') True,
     \<comment> \<open>\<open>/(process\.exit\(1\)|isNaN\(|\.length\s*[!=]=|args\.length|Missing\s+(argument|parameter))/g\<close>\<close>
     detection (Alts [Str ''process.exit(1)'', Str ''isNaN('',
         Seqs [Str ''.length'', Star Sp, Cls [CChar CHR ''!'', CChar CHR ''=''], Lit CHR ''=''],
         Str ''args.length'',
         Seqs [Str ''Missing'', Plus Sp, Words [''argument'', ''parameter'']]]) ''g'' 0.7
       ''Contains comprehensive input validation typical of AI first-draft code'' True,
     \<comment> \<open>\<open>/(Usage:\s*|Example:\s*|Please\s+(provide|ensure|check))/gi\<close>\<close>
     detection (Alts [Seq (Str ''Usage:'') (Star Sp), Seq (Str ''Example:'') (Star Sp),
         Seqs [Str ''Please'', Plus Sp, Words [''provide'', ''ensure'', ''check'']]]) ''gi'' 0.8
       ''Polite, structured error messages with usage examples'' True,
     \<comment> \<open>\<open>/\b(commandLineArguments|userInput|calculationResult|operatorSymbol)\b/gi\<close>\<close>
     detection (Seqs [WordB,
         Words [''commandLineArguments'', ''userInput'', ''calculationResult'', ''operatorSymbol''],
         WordB]) ''gi'' 0.6
       ''Uses overly descriptive variable names'' True,
     \<comment> \<open>\<open>/switch\s*\([^)]+\)\s*{[\s\S]*default:\s*[\s\S]*}/g\<close>\<close>
     detection (Seqs [Str ''switch'', Star Sp, Lit CHR ''('', Plus (NCls [CChar CHR '')'']),
         Lit CHR '')'', Star Sp, Lit CHR ''{'', Star AnyChar, Str ''default:'', Star Sp,
         Star AnyChar, Lit CHR ''}'']) ''g'' 0.4
       ''Contains comprehensive switch statement with default case'' True,
     \<comment> \<open>\<open>/^#!/\<close>\<close>
     detection (Seq Bol (Str ''#!'')) [] 0.3
       ''Includes shebang line typical of AI-generated scripts'' True,
     \<comment> \<open>\<open>/console\.log\((?!.*Result:|.*Error:|.*Usage:)/g\<close>\<close>
     detection console_log_pattern ''g'' 0.6
       ''Contains debug console.log statements'' False,
     \<comment> \<open>\<open>/(TODO|FIXME|HACK|XXX):/gi\<close>\<close>
     detection (Seq (Words [''TODO'', ''FIXME'', ''HACK'', ''XXX'']) (Lit CHR '':'')) ''gi'' 0.7
       ''Contains TODO/FIXME comments indicating human planning'' False,
     \<comment> \<open>\<open>/\/\/\s*[a-z][^.]*$/gm\<close>\<close>
     detection (Seqs [Str ''//'', Star Sp, Cls [CRange CHR ''a'' CHR ''z''],
         Star (NCls [CChar CHR ''.'']), Eol]) ''gm'' 0.3
       ''Contains short, terse comments typical of human code'' False,
     \<comment> \<open>\<open>/\b(btn|txt|img|nav|auth|cfg|opts|params|ctx|req|res|db|api|temp|tmp|val|str|num|arr|obj)\b/gi\<close>\<close>
     detection (Seqs [WordB,
         Words [''btn'', ''txt'', ''img'', ''nav'', ''auth'', ''cfg'', ''opts'', ''params'', ''ctx'',
                ''req'', ''res'', ''db'', ''api'', ''temp'', ''tmp'', ''val'', ''str'', ''num'',
                ''arr'', ''obj''],
         WordB]) ''gi'' 0.4
       ''Uses abbreviated variable names common in human code'' False,
     \<comment> \<open>\<open>/\s{3,}(?!\s*\/\/)|[;}]\s*[;}]|\t\s+|\s+\t/g\<close>\<close>
     detection (Alts [wide_gap, doubled_punctuation, Seq (Lit CHR 0x09) (Plus Sp),
         Seq (Plus Sp) (Lit CHR 0x09)]) ''g'' 0.5
       ''Has inconsistent spacing typical of human editing'' False,
     \<comment> \<open>\<open>/\[[^\]]*\]\.map\(|\.filter\(|\.reduce\(/g\<close>\<close>
     detection (Alts [Seqs [Lit CHR ''['', Star (NCls [CChar CHR '']'']), Str ''].map(''],
         Str ''.filter('', Str ''.reduce('']) ''g'' 0.2
       ''Uses functional programming without extensive validation'' False]\<close>

definition initial_LANGUAGE_PATTERNS :: "(string \<times> DetectionPattern list) list" where
  \<open>initial_LANGUAGE_PATTERNS = [
     (''javascript'', [
        \<comment> \<open>\<open>/console\.log\([^)]*\)/g\<close>\<close>
        detection (Seqs [Str ''console.log('', Star (NCls [CChar CHR '')'']), Lit CHR '')'']) ''g'' 0.2
          ''Contains debug console.log statements'' False,
        \<comment> \<open>\<open>/function\s+\w+\s*\([^)]*\)\s*{/g\<close>\<close>
        detection (Seqs [Str ''function'', Plus Sp, Plus (Cls [CWord]), Star Sp, Lit CHR ''('',
            Star (NCls [CChar CHR '')'']), Lit CHR '')'', Star Sp, Lit CHR ''{'']) ''g'' 0.1
          ''Uses function declarations'' True]),
     (''python'', [
        \<comment> \<open>\<open>/print\([^)]*\)/g\<close>\<close>
        detection (Seqs [Str ''print('', Star (NCls [CChar CHR '')'']), Lit CHR '')'']) ''g'' 0.2
          ''Contains debug print statements'' False,
        \<comment> \<open>\<open>/def\s+\w+\s*\([^)]*\):/g\<close>\<close>
        detection (Seqs [Str ''def'', Plus Sp, Plus (Cls [CWord]), Star Sp, Lit CHR ''('',
            Star (NCls [CChar CHR '')'']), Str ''):'']) ''g'' 0.1
          ''Uses function definitions'' True]),
     (''typescript'', [
        \<comment> \<open>\<open>/:\s*(string|number|boolean|any|unknown|void|never)\b/g\<close>\<close>
        detection (Seqs [Lit CHR '':'', Star Sp,
            Words [''string'', ''number'', ''boolean'', ''any'', ''unknown'', ''void'', ''never''],
            WordB]) ''g'' 0.2
          ''Contains explicit type annotations'' True])]\<close>

definition initial_tables :: tables where
  \<comment> \<open>the tables as the module creates them: every \<open>lastIndex\<close> is 0\<close>
  "initial_tables = \<lparr> AI_PATTERNS = initial_AI_PATTERNS, LANGUAGE_PATTERNS = initial_LANGUAGE_PATTERNS \<rparr>"

section \<open>The line classifier\<close>

datatype error =
    TypeError
  | InvalidRepositoryUrl
  | GitHubApiError
  | NoAnalyzeableFiles

type_synonym scores = "real \<times> real \<times> string list"

fun apply_patterns :: "DetectionPattern list \<Rightarrow> string \<Rightarrow> scores \<Rightarrow> scores \<times> DetectionPattern list" where
  \<comment> \<open>\<open>for (const pattern of patterns) if (pattern.pattern.test(content)) ...\<close>: the scores
      \<open>(aiScore, humanScore, reasons)\<close> after the loop, and the patterns with the
      \<open>lastIndex\<close> the tests left\<close>
  "apply_patterns [] trimmed acc = (acc, [])"
| "apply_patterns (p # ps) trimmed (aiScore, humanScore, rs) =
     (let (hit, r) = test (pattern p) trimmed;
          acc = (if hit then
                   (if aiIndicator p then (fadd aiScore (weight p), humanScore, rs @ [reason p])
                    else (aiScore, fadd humanScore (weight p), rs @ [reason p]))
                 else (aiScore, humanScore, rs));
          (res, ps') = apply_patterns ps trimmed acc
      in (res, p\<lparr>pattern := r\<rparr> # ps'))"

definition object_prototype_keys :: "string list" where
  \<comment> \<open>the property names every object literal inherits from \<open>Object.prototype\<close>\<close>
  "object_prototype_keys = [''constructor'', ''__defineGetter__'', ''__defineSetter__'',
     ''hasOwnProperty'', ''__lookupGetter__'', ''__lookupSetter__'', ''isPrototypeOf'',
     ''propertyIsEnumerable'', ''toString'', ''valueOf'', ''__proto__'', ''toLocaleString'']"

definition language_patterns :: "tables \<Rightarrow> string \<Rightarrow> error + DetectionPattern list" where
  \<comment> \<open>\<open>LANGUAGE_PATTERNS[language] || []\<close>, as the \<open>for ... of\<close> loop receives it: the
      language's own list; for an inherited property name a function or object, truthy and
      not iterable, on which the loop throws a TypeError; the empty list otherwise\<close>
  "language_patterns t language =
     (case map_of (LANGUAGE_PATTERNS t) language of
        Some ps \<Rightarrow> Inr ps
      | None \<Rightarrow> if List.member object_prototype_keys language then Inl TypeError else Inr [])"

definition store_language_patterns :: "tables \<Rightarrow> string \<Rightarrow> DetectionPattern list \<Rightarrow> tables" where
  \<comment> \<open>the language's patterns are objects of the table: their new \<open>lastIndex\<close> stays there\<close>
  "store_language_patterns t language ps =
     (case map_of (LANGUAGE_PATTERNS t) language of
        Some _ \<Rightarrow> t\<lparr>LANGUAGE_PATTERNS := map (\<lambda>(k, v). if k = language then (k, ps) else (k, v))
                      (LANGUAGE_PATTERNS t)\<rparr>
      | None \<Rightarrow> t)"

definition structural_punctuation :: re where
  \<comment> \<open>\<open>[{}();,]\<close>\<close>
  "structural_punctuation = Cls (map CChar ''{}();,'')"

definition imperfect_character :: re where
  \<comment> \<open>\<open>[^\w\s\(\)\[\]{};:,.<>!@#$%^&*+=|\\?/-]\<close>\<close>
  "imperfect_character =
     NCls ([CWord, CSpace] @ map CChar ''()[]{};:,.<>!@#$%^&*+=|'' @ [CChar CHR 0x5C]
           @ map CChar ''?/-'')"

definition placeholder_names :: re where
  \<comment> \<open>\<open>\b(foo|bar|baz|qux|quirky|magic|hack|wtf)\b\<close>\<close>
  "placeholder_names = Seqs [WordB,
     Words [''foo'', ''bar'', ''baz'', ''qux'', ''quirky'', ''magic'', ''hack'', ''wtf''], WordB]"

definition line_heuristics :: "string \<Rightarrow> scores \<Rightarrow> scores" where
  \<comment> \<open>the "additional heuristics" of \<open>analyzeLine\<close>, in the source's order\<close>
  "line_heuristics trimmed acc =
     (let (a1, h1, r1) = acc;
          (a2, h2, r2) =
            (if 120 < length trimmed
             then (fadd a1 (js 0.2), h1, r1 @ [''Very long line length typical of AI generation''])
             else if length trimmed < 20 \<and> \<not> matches structural_punctuation [] trimmed
             then (a1, fadd h1 (js 0.1), r1 @ [''Short, concise line suggests human writing''])
             else (a1, h1, r1));
          hasPerfectSyntax = (\<not> matches imperfect_character [] trimmed);
          (a3, h3, r3) =
            (if hasPerfectSyntax \<and> 30 < length trimmed
             then (fadd a2 (js 0.1), h2, r2 @ [''Perfect syntax and structure''])
             else (a2, h2, r2))
      in if matches placeholder_names ''i'' trimmed
         then (a3, fadd h3 (js 0.3), r3 @ [''Uses creative or placeholder naming typical of humans''])
         else (a3, h3, r3))"

definition verdict :: "string \<Rightarrow> scores \<Rightarrow> LineAnalysis" where
  \<comment> \<open>"calculate final scores" of \<open>analyzeLine\<close>\<close>
  "verdict line acc =
     (let (aiScore, humanScore, rs) = acc;
          totalScore = fadd aiScore humanScore;
          c = (if 0 < totalScore then fdiv (max aiScore humanScore) totalScore else js 0.5)
      in \<lparr> content = line,
           isAI = (humanScore < aiScore),
           confidence = min (max c (js 0.1)) (js 0.95),
           reasons = (if rs = [] then [''No significant patterns detected - neutral classification'']
                      else rs) \<rparr>)"

definition analyzeLine :: "tables \<Rightarrow> string \<Rightarrow> nat \<Rightarrow> string \<Rightarrow> (error + LineAnalysis) \<times> tables" where
  "analyzeLine t line lineNumber language =
     (let trimmed = trim line in
      if trimmed = [] then
        (Inr \<lparr> content = line, isAI = False, confidence = js 0.5,
               reasons = [''Empty line - neutral''] \<rparr>, t)
      else
        let (acc1, general) = apply_patterns (AI_PATTERNS t) trimmed (0, 0, []);
            t1 = t\<lparr>AI_PATTERNS := general\<rparr>
        in case language_patterns t1 language of
             Inl e \<Rightarrow> (Inl e, t1)
           | Inr langPatterns \<Rightarrow>
               let (acc2, specific) = apply_patterns langPatterns trimmed acc1;
                   t2 = store_language_patterns t1 language specific
               in (Inr (verdict line (line_heuristics trimmed acc2)), t2))"

section \<open>The contextual smoother\<close>

definition creativePatterns :: "(re \<times> string) list" where
  \<comment> \<open>the patterns of \<open>isCreativeHumanCode\<close> with their flags; the literals are evaluated
      at each call, so each test starts at index 0\<close>
  \<open>creativePatterns = [
     \<comment> \<open>\<open>/(TODO|FIXME|HACK|XXX|NOTE):/gi\<close>\<close>
     (Seq (Words [''TODO'', ''FIXME'', ''HACK'', ''XXX'', ''NOTE'']) (Lit CHR '':''), ''gi''),
     \<comment> \<open>\<open>/\b(foo|bar|baz|qux|quirky|magic|hack|wtf|temp|tmp)\b/i\<close>\<close>
     (Seqs [WordB, Words [''foo'', ''bar'', ''baz'', ''qux'', ''quirky'', ''magic'', ''hack'', ''wtf'',
        ''temp'', ''tmp''], WordB], ''i''),
     \<comment> \<open>\<open>/console\.log\((?!.*Result:|.*Error:|.*Usage:)/\<close>\<close>
     (console_log_pattern, []),
     \<comment> \<open>\<open>/\/\/\s*(FIXME|TODO|HACK|NOTE)/i\<close>\<close>
     (Seqs [Str ''//'', Star Sp, Words [''FIXME'', ''TODO'', ''HACK'', ''NOTE'']], ''i''),
     \<comment> \<open>\<open>/\/\/\s*[a-z][^.A-Z]*$/\<close>\<close>
     (Seqs [Str ''//'', Star Sp, Cls [CRange CHR ''a'' CHR ''z''],
        Star (NCls [CChar CHR ''.'', CRange CHR ''A'' CHR ''Z'']), Eol], []),
     \<comment> \<open>\<open>/\?\?\?|\!\!\!|\.\.\.$/\<close>\<close>
     (Alts [Str ''???'', Str ''!!!'', Seq (Str ''...'') Eol], []),
     \<comment> \<open>\<open>/\/\/\s*(lol|wtf|omg|meh|ugh)/i\<close>\<close>
     (Seqs [Str ''//'', Star Sp, Words [''lol'', ''wtf'', ''omg'', ''meh'', ''ugh'']], ''i'')]\<close>

definition isCreativeHumanCode :: "string \<Rightarrow> bool" where
  "isCreativeHumanCode line =
     (let trimmed = trim line in list_ex (\<lambda>(r, flags). matches r flags trimmed) creativePatterns)"

definition sandwiched :: "LineAnalysis \<Rightarrow> LineAnalysis" where
  "sandwiched l = l\<lparr> isAI := True, confidence := max (confidence l) (js 0.7),
     reasons := reasons l @ [''Line sandwiched between AI-generated code blocks''] \<rparr>"

definition extended :: "LineAnalysis \<Rightarrow> LineAnalysis" where
  "extended l = l\<lparr> isAI := True, confidence := max (confidence l) (js 0.6),
     reasons := reasons l @ [''Part of extended AI-generated code block''] \<rparr>"

function sandwich_pass :: "nat \<Rightarrow> LineAnalysis list \<Rightarrow> LineAnalysis list" where
  \<comment> \<open>the first loop of \<open>applyContextualAnalysis\<close>, from index \<open>i\<close> on; the array is
      updated in place, so the previous line is read as the loop left it\<close>
  "sandwich_pass i xs =
     (if i + 1 < length xs then
        (let currentLine = xs ! i; prevLine = xs ! (i - 1); nextLine = xs ! (i + 1) in
         if trim (content currentLine) = [] then sandwich_pass (i + 1) xs
         else if \<not> isAI currentLine \<and> isAI prevLine \<and> isAI nextLine
                 \<and> \<not> isCreativeHumanCode (content currentLine)
         then sandwich_pass (i + 1) (xs[i := sandwiched currentLine])
         else sandwich_pass (i + 1) xs)
      else xs)"
  by pat_completeness auto
termination
  by (relation "measure (\<lambda>(i, xs). length xs - i)") auto

definition aiContinues :: "nat \<Rightarrow> LineAnalysis list \<Rightarrow> bool" where
  \<comment> \<open>the look-ahead \<open>for (let j = i + 1; j < Math.min(i + 3, lineAnalysis.length); j++)\<close>\<close>
  "aiContinues i xs =
     list_ex (\<lambda>j. trim (content (xs ! j)) \<noteq> [] \<and> isAI (xs ! j)) [i + 1 ..< min (i + 3) (length xs)]"

function block_pass :: "nat \<Rightarrow> nat \<Rightarrow> LineAnalysis list \<Rightarrow> LineAnalysis list" where
  \<comment> \<open>the second loop, from index \<open>i\<close> on with the counter \<open>consecutiveAICount\<close>\<close>
  "block_pass i consecutiveAICount xs =
     (if i < length xs then
        (let line = xs ! i in
         if trim (content line) = [] then block_pass (i + 1) 0 xs
         else if isAI line then block_pass (i + 1) (consecutiveAICount + 1) xs
         else if 3 \<le> consecutiveAICount \<and> \<not> isCreativeHumanCode (content line) \<and> aiContinues i xs
         then block_pass (i + 1) 0 (xs[i := extended line])
         else block_pass (i + 1) 0 xs)
      else xs)"
  by pat_completeness auto
termination
  by (relation "measure (\<lambda>(i, c, xs). length xs - i)") auto

definition applyContextualAnalysis :: "LineAnalysis list \<Rightarrow> LineAnalysis list" where
  \<comment> \<open>the array after the call\<close>
  "applyContextualAnalysis analyses = block_pass 0 0 (sandwich_pass 1 analyses)"

section \<open>The structural scorer\<close>

fun count_from :: "re \<Rightarrow> bool \<Rightarrow> bool \<Rightarrow> char option \<Rightarrow> string \<Rightarrow> nat" where
  \<comment> \<open>the number of matches \<open>s.match(/r/g)\<close> collects from a position on: the search goes on
      at the end of a match, and one character further after an empty match\<close>
  "count_from r ci ml p s =
     (case ends r ci ml (p, s) of
        y # _ \<Rightarrow>
          if length (snd y) < length s then Suc (count_from r ci ml (fst y) (snd y))
          else (case s of [] \<Rightarrow> 1 | c # cs \<Rightarrow> Suc (count_from r ci ml (Some c) cs))
      | [] \<Rightarrow> (case s of [] \<Rightarrow> 0 | c # cs \<Rightarrow> count_from r ci ml (Some c) cs))"

definition match_count :: "re \<Rightarrow> string \<Rightarrow> string \<Rightarrow> nat" where
  \<comment> \<open>\<open>(s.match(/r/flags) || []).length\<close> for a literal with the \<open>g\<close> flag\<close>
  "match_count r flags s = count_from r (CHR ''i'' \<in> set flags) (CHR ''m'' \<in> set flags) None s"

definition leading_indent :: "string \<Rightarrow> string" where
  \<comment> \<open>\<open>line.match(/^\s*/)?.[0] || ''\<close>\<close>
  "leading_indent line = (case match_text (Seq Bol (Star Sp)) [] line of None \<Rightarrow> [] | Some t \<Rightarrow> t)"

definition aligned_pattern :: re where
  \<comment> \<open>\<open>/^\s*([\{\}\[\](),;]|\w+:\s*)/\<close>\<close>
  "aligned_pattern = Seqs [Bol, Star Sp,
     Alt (Cls (map CChar ''{}[](),;'')) (Seqs [Plus (Cls [CWord]), Lit CHR '':'', Star Sp])]"

fun indentation_scan :: "string list \<Rightarrow> string \<Rightarrow> nat \<times> nat \<Rightarrow> nat \<times> nat" where
  \<comment> \<open>the loop over the lines: \<open>(consistentIndentation, perfectlyAlignedLines)\<close>, with
      \<open>indentPattern\<close> carried along\<close>
  "indentation_scan [] indentPattern (consistent, aligned) = (consistent, aligned)"
| "indentation_scan (line # rest) indentPattern (consistent, aligned) =
     (let indent = leading_indent line;
          indentPattern' = (if indentPattern = [] \<and> indent \<noteq> [] then indent else indentPattern);
          consistent' = (if indent = indentPattern' \<or> indent = [] \<or> startsWith indent indentPattern'
                         then consistent + 1 else consistent);
          aligned' = (if matches aligned_pattern [] line then aligned + 1 else aligned)
      in indentation_scan rest indentPattern' (consistent', aligned'))"

definition messyPatterns :: "re list" where
  \<comment> \<open>\<open>/console\.log\(/\<close>, \<open>/(TODO|FIXME|HACK)/\<close>, \<open>/\s{3,}(?!\s*\/\/)/\<close>, \<open>/[;}]\s*[;}]/\<close>\<close>
  "messyPatterns = [Str ''console.log('', Words [''TODO'', ''FIXME'', ''HACK''], wide_gap,
     doubled_punctuation]"

definition comment_pattern :: re where
  \<comment> \<open>\<open>/\/\*[\s\S]*?\*\/|\/\/.*$/gm\<close>\<close>
  "comment_pattern = Alt (Seqs [Str ''/*'', LazyStar AnyChar, Str ''*/''])
                         (Seqs [Str ''//'', Star Dot, Eol])"

definition error_handling_pattern :: re where
  \<comment> \<open>\<open>/(try|catch|throw|Error|Exception)/g\<close>\<close>
  "error_handling_pattern = Words [''try'', ''catch'', ''throw'', ''Error'', ''Exception'']"

definition validation_pattern :: re where
  \<comment> \<open>\<open>/(isNaN|\.length|args\.length|Missing.*argument)/g\<close>\<close>
  "validation_pattern = Alts [Str ''isNaN'', Str ''.length'', Str ''args.length'',
     Seqs [Str ''Missing'', Star Dot, Str ''argument'']]"

definition early_validation_pattern :: re where
  \<comment> \<open>\<open>/(args\.length|Missing.*argument|isNaN|process\.exit)/\<close>\<close>
  "early_validation_pattern = Alts [Str ''args.length'',
     Seqs [Str ''Missing'', Star Dot, Str ''argument''], Str ''isNaN'', Str ''process.exit'']"

definition bump :: "bool \<Rightarrow> real \<Rightarrow> real \<Rightarrow> real" where
  \<comment> \<open>\<open>if (c) aiScore += w\<close>\<close>
  "bump c w aiScore = (if c then fadd aiScore (js w) else aiScore)"

definition analyzeCodeStructure :: "string \<Rightarrow> real" where
  "analyzeCodeStructure code =
     (let lines = filter (\<lambda>line. trim line \<noteq> []) (split_on CHR 0x0A code);
          n = length lines;
          (consistentIndentation, perfectlyAlignedLines) = indentation_scan lines [] (0, 0);
          s1 = bump (ratio_gt consistentIndentation n (js 0.9)) 0.3 0;
          s2 = bump (ratio_gt perfectlyAlignedLines n (js 0.4)) 0.2 s1;
          messyLines = length (filter (\<lambda>line. list_ex (\<lambda>r. matches r [] line) messyPatterns) lines);
          s3 = bump (messyLines = 0 \<and> 10 < n) 0.15 s2;
          commentLines = match_count comment_pattern ''gm'' code;
          s4 = bump (ratio_gt commentLines n (js 0.3)) 0.2 s3;
          errorHandlingCount = match_count error_handling_pattern ''g'' code;
          validationCount = match_count validation_pattern ''g'' code;
          s5 = bump (fmul (of_nat n) (js 0.1) < of_nat (errorHandlingCount + validationCount)) 0.25 s4;
          earlyLines = join_with [CHR 0x0A] (take (min 20 n) lines);
          s6 = bump (matches early_validation_pattern [] earlyLines) 0.2 s5
      in min s6 1)"

section \<open>Classifying a text\<close>

definition nudge :: "real \<Rightarrow> LineAnalysis \<Rightarrow> LineAnalysis" where
  \<comment> \<open>"adjust confidence based on overall structure"\<close>
  "nudge structureScore analysis =
     (if js 0.5 < structureScore then
        (if isAI analysis
         then analysis\<lparr>confidence := min (fadd (confidence analysis) (js 0.1)) (js 0.95)\<rparr>
         else analysis)
      else analysis)"

fun analyze_lines ::
  "tables \<Rightarrow> real \<Rightarrow> string \<Rightarrow> nat \<Rightarrow> string list \<Rightarrow> (error + LineAnalysis list) \<times> tables" where
  \<comment> \<open>the loop \<open>for (let i = 0; i < lines.length; i++)\<close> of \<open>analyzeCode\<close> over the lines
      from index \<open>i\<close> on: the analyses pushed, or the exception that ended the loop\<close>
  "analyze_lines t structureScore language i [] = (Inr [], t)"
| "analyze_lines t structureScore language i (l # ls) =
     (case analyzeLine t l (i + 1) language of
        (Inl e, t') \<Rightarrow> (Inl e, t')
      | (Inr analysis, t') \<Rightarrow>
          (case analyze_lines t' structureScore language (i + 1) ls of
             (Inl e, t'') \<Rightarrow> (Inl e, t'')
           | (Inr rest, t'') \<Rightarrow> (Inr (nudge structureScore analysis # rest), t'')))"

definition nonEmptyLines :: "LineAnalysis list \<Rightarrow> LineAnalysis list" where
  "nonEmptyLines analyses = filter (\<lambda>l. trim (content l) \<noteq> []) analyses"

definition percentage :: "nat \<Rightarrow> nat \<Rightarrow> real" where
  \<comment> \<open>\<open>total > 0 ? (count / total) * 100 : 0\<close>\<close>
  "percentage k n = (if 0 < n then fmul (fdiv (of_nat k) (of_nat n)) 100 else 0)"

definition statistics :: "LineAnalysis list \<Rightarrow> AnalysisResult" where
  \<comment> \<open>"calculate statistics" of \<open>analyzeCode\<close>\<close>
  "statistics analyses =
     (let nonEmpty = nonEmptyLines analyses;
          ai = length (filter isAI nonEmpty);
          human = length nonEmpty - ai;
          n = length nonEmpty
      in \<lparr> totalLines = n, aiLines = ai, humanLines = human,
           aiPercentage = percentage ai n,
           humanPercentage = percentage human n,
           overallConfidence =
             (if 0 < length nonEmpty
              then fdiv (foldl (\<lambda>sum line. fadd sum (confidence line)) 0 nonEmpty)
                        (of_nat (length nonEmpty))
              else js 0.5),
           lineAnalysis = analyses \<rparr>)"

definition analyzeCode :: "tables \<Rightarrow> string \<Rightarrow> string \<Rightarrow> (error + AnalysisResult) \<times> tables" where
  \<comment> \<open>the value the promise resolves to, or the exception it rejects with, and the tables
      after the call; the delay before the analysis is not part of the result\<close>
  "analyzeCode t code language =
     (let lines = split_on CHR 0x0A code;
          structureScore = analyzeCodeStructure code
      in case analyze_lines t structureScore language 0 lines of
           (Inl e, t') \<Rightarrow> (Inl e, t')
         | (Inr analyses, t') \<Rightarrow> (Inr (statistics (applyContextualAnalysis analyses)), t'))"

section \<open>Analysing a repository\<close>

text \<open>
  The network is a parameter: what a directory listing and a file download answer, or that
  they fail. The provenance detection (\<open>detectLovableGeneration\<close>, with the metadata and
  commits it reads) only fills \<open>isLovableGenerated\<close> and \<open>lovableIndicators\<close>; these two fields
  and that step are left out.
\<close>

record environment =
  listing :: "string \<Rightarrow> string \<Rightarrow> string \<Rightarrow> GitHubFile list option"
  download :: "string \<Rightarrow> string option"

record FileAnalysis =
  fa_path :: string
  fa_language :: string
  analysis :: AnalysisResult
  fa_size :: nat

record RepositoryAnalysis =
  repositoryUrl :: string
  totalFiles :: nat
  analyzedFiles :: nat
  files :: "FileAnalysis list"
  overallStats :: Stats

datatype event =
    Progress nat nat string
  | Fetch string
  | Classify string

definition skipPatterns :: "string list" where
  "skipPatterns = [''node_modules'', ''dist'', ''build'', ''.next'', ''.nuxt'', ''coverage'',
     ''.nyc_output'', ''public'', ''static'', ''assets'', ''components/ui'', ''.generated'', ''.gen'',
     ''.git'', ''.svn'', ''.hg'', ''.vscode'', ''.idea'', ''.vs'', ''.husky'', ''.github'', ''.gitlab'',
     ''tmp'', ''temp'', ''.cache'', ''.temp'']"

definition shouldSkipDirectory :: "string \<Rightarrow> string \<Rightarrow> bool" where
  "shouldSkipDirectory dirPath dirName =
     (if List.member skipPatterns dirName then True
      else if includes_str dirPath ''/node_modules/'' \<or> includes_str dirPath ''/components/ui/''
              \<or> includes_str dirPath ''/.'' \<or> includes_str dirPath ''/dist/''
              \<or> includes_str dirPath ''/build/''
      then True
      else False)"

fun getAllFiles :: "environment \<Rightarrow> string \<Rightarrow> string \<Rightarrow> string \<Rightarrow> nat \<Rightarrow> error + GitHubFile list" where
  \<comment> \<open>a listing that fails makes the call throw; the caller of a recursive call catches it\<close>
  "getAllFiles env owner repo dir 0 = Inr []"
| "getAllFiles env owner repo dir (Suc maxDepth) =
     (case listing env owner repo dir of
        None \<Rightarrow> Inl GitHubApiError
      | Some contents \<Rightarrow>
          Inr (concat (map (\<lambda>item.
            if file_type item = File then [item]
            else if file_type item = Dir \<and> \<not> shouldSkipDirectory (path item) (name item) then
              (case getAllFiles env owner repo (path item) maxDepth of
                 Inl e \<Rightarrow> []
               | Inr subFiles \<Rightarrow> subFiles)
            else []) contents)))"

definition url_pattern :: re where
  \<comment> \<open>\<open>/github\.com\/([^\/]+)\/([^\/]+)/\<close>\<close>
  "url_pattern = Seqs [Str ''github.com/'', Plus (NCls [CChar CHR ''/'']), Lit CHR ''/'',
     Plus (NCls [CChar CHR ''/''])]"

definition urlMatch :: "string \<Rightarrow> (string \<times> string) option" where
  \<comment> \<open>the two groups of the match: each is the longest run without a slash, the first one
      because a slash has to follow it\<close>
  "urlMatch url =
     (case exec_at (regex url_pattern []) 0 url of
        None \<Rightarrow> None
      | Some (b, e) \<Rightarrow>
          (let rest = drop (b + length ''github.com/'') url;
               owner = takeWhile (\<lambda>c. c \<noteq> CHR ''/'') rest;
               repo = takeWhile (\<lambda>c. c \<noteq> CHR ''/'') (drop (length owner + 1) rest)
           in Some (owner, repo)))"

definition analyzeable :: "GitHubFile \<Rightarrow> bool" where
  \<comment> \<open>the filter of \<open>analyzeableFiles\<close>: a size of 0 and an empty URL are falsy\<close>
  "analyzeable file =
     (shouldAnalyzeFile (path file) \<and> file_size file \<noteq> 0 \<and> file_size file < 1024 * 1024
      \<and> (case download_url file of None \<Rightarrow> False | Some u \<Rightarrow> u \<noteq> []))"

record accumulator =
  fileAnalyses :: "FileAnalysis list"
  sumLines :: nat
  sumAiLines :: nat
  sumHumanLines :: nat
  totalConfidence :: real
  analyzedCount :: nat

definition report :: "bool \<Rightarrow> event \<Rightarrow> event list" where
  \<comment> \<open>\<open>onProgress?.(...)\<close>: a call, when a callback was supplied\<close>
  "report supplied e = (if supplied then [e] else [])"

fun analyze_files ::
  "environment \<Rightarrow> bool \<Rightarrow> nat \<Rightarrow> nat \<Rightarrow> GitHubFile list \<Rightarrow> tables \<times> accumulator \<times> event list
     \<Rightarrow> tables \<times> accumulator \<times> event list" where
  \<comment> \<open>the loop "analyze each file" over the files from index \<open>i\<close> on, \<open>n\<close> being
      \<open>analyzeableFiles.length\<close>; an exception of the download or of the analysis is
      caught and the loop goes on\<close>
  "analyze_files env supplied n i [] s = s"
| "analyze_files env supplied n i (file # rest) (t, acc, evs) =
     (let url = (case download_url file of None \<Rightarrow> [] | Some u \<Rightarrow> u);
          evs1 = evs @ report supplied (Progress (i + 1) n (path file)) @ [Fetch url]
      in case download env url of
           None \<Rightarrow> analyze_files env supplied n (i + 1) rest (t, acc, evs1)
         | Some text \<Rightarrow>
             (let language = getLanguageFromPath (path file) in
              if trim text = [] then analyze_files env supplied n (i + 1) rest (t, acc, evs1)
              else
                (case analyzeCode t text language of
                   (Inl e, t') \<Rightarrow>
                     analyze_files env supplied n (i + 1) rest (t', acc, evs1 @ [Classify (path file)])
                 | (Inr result, t') \<Rightarrow>
                     analyze_files env supplied n (i + 1) rest
                       (t',
                        acc\<lparr> fileAnalyses := fileAnalyses acc @
                               [\<lparr> fa_path = path file, fa_language = language, analysis = result,
                                  fa_size = file_size file \<rparr>],
                             sumLines := sumLines acc + totalLines result,
                             sumAiLines := sumAiLines acc + aiLines result,
                             sumHumanLines := sumHumanLines acc + humanLines result,
                             totalConfidence := fadd (totalConfidence acc) (overallConfidence result),
                             analyzedCount := analyzedCount acc + 1 \<rparr>,
                        evs1 @ [Classify (path file)]))))"

definition analyzeGitHubRepository ::
  "environment \<Rightarrow> tables \<Rightarrow> string \<Rightarrow> bool \<Rightarrow> (error + RepositoryAnalysis) \<times> event list \<times> tables" where
  \<comment> \<open>the value the promise resolves to, or the exception it rejects with; the calls of the
      progress callback (when one is supplied), the downloads and the classifications, in the
      order they happen; and the tables after the call\<close>
  "analyzeGitHubRepository env t url supplied =
     (case urlMatch url of
        None \<Rightarrow> (Inl InvalidRepositoryUrl, [], t)
      | Some (owner, repo) \<Rightarrow>
          (let evs0 = report supplied (Progress 0 1 ''Fetching repository structure...'') in
           case getAllFiles env owner repo [] 4 of
             Inl e \<Rightarrow> (Inl e, evs0, t)
           | Inr allFiles \<Rightarrow>
               (let evs1 = evs0 @ report supplied (Progress 0 1 ''Fetching repository metadata...'');
                    analyzeableFiles = filter analyzeable allFiles
                in if length analyzeableFiles = 0 then (Inl NoAnalyzeableFiles, evs1, t)
                   else
                     (let (t', acc, evs2) =
                            analyze_files env supplied (length analyzeableFiles) 0 analyzeableFiles
                              (t, \<lparr> fileAnalyses = [], sumLines = 0, sumAiLines = 0, sumHumanLines = 0,
                                    totalConfidence = 0, analyzedCount = 0 \<rparr>, evs1)
                      in (Inr \<lparr> repositoryUrl = url,
                                totalFiles = length allFiles,
                                analyzedFiles = length (fileAnalyses acc),
                                files = fileAnalyses acc,
                                overallStats =
                                  \<lparr> totalLines = sumLines acc,
                                    aiLines = sumAiLines acc,
                                    humanLines = sumHumanLines acc,
                                    aiPercentage = percentage (sumAiLines acc) (sumLines acc),
                                    humanPercentage = percentage (sumHumanLines acc) (sumLines acc),
                                    overallConfidence =
                                      (if 0 < analyzedCount acc
                                       then fdiv (totalConfidence acc) (of_nat (analyzedCount acc))
                                       else 0) \<rparr> \<rparr>,
                          evs2, t')))))"

section \<open>Properties of the rounding\<close>

declare bexp.simps [simp del]

lemma bexp_bounds: "0 < x \<Longrightarrow> 2 powi (bexp x) \<le> x \<and> x < 2 powi (bexp x + 1)"
proof (induction x rule: bexp.induct)
  case (1 x)
  show ?case
  proof (cases "2 \<le> x")
    case True
    then have e: "bexp x = bexp (x / 2) + 1" using 1(3) by (subst bexp.simps) simp
    have "2 powi bexp (x / 2) \<le> x / 2 \<and> x / 2 < 2 powi (bexp (x / 2) + 1)"
      using 1(1) True 1(3) by simp
    then show ?thesis unfolding e
      by (simp add: power_int_add)
  next
    case False
    show ?thesis
    proof (cases "x < 1")
      case True
      then have e: "bexp x = bexp (2 * x) - 1" using 1(3) False by (subst bexp.simps) simp
      have "2 powi bexp (2 * x) \<le> 2 * x \<and> 2 * x < 2 powi (bexp (2 * x) + 1)"
        using 1(2) True False 1(3) by simp
      then show ?thesis unfolding e
        by (simp add: power_int_add power_int_diff)
    next
      case x1: False
      then have e: "bexp x = 0" using 1(3) False by (subst bexp.simps) simp
      show ?thesis unfolding e using False x1 by simp
    qed
  qed
qed

lemma rhe_of_int: "rhe (of_int n) = n"
  by (simp add: rhe_def)

lemma rhe_near: "\<bar>of_int (rhe q) - q\<bar> \<le> 1/2"
  unfolding rhe_def Let_def by (auto; linarith)

lemma rhe_mono: "q \<le> q' \<Longrightarrow> rhe q \<le> rhe q'"
proof -
  assume a: "q \<le> q'"
  then have f: "\<lfloor>q\<rfloor> \<le> \<lfloor>q'\<rfloor>" by (rule floor_mono)
  have lo: "\<lfloor>q'\<rfloor> \<le> rhe q'" unfolding rhe_def Let_def by auto
  have hi: "rhe q \<le> \<lfloor>q\<rfloor> + 1" unfolding rhe_def Let_def by auto
  show ?thesis
  proof (cases "\<lfloor>q\<rfloor> < \<lfloor>q'\<rfloor>")
    case True
    then show ?thesis using lo hi by linarith
  next
    case False
    then have eq: "\<lfloor>q\<rfloor> = \<lfloor>q'\<rfloor>" using f by simp
    show ?thesis using a unfolding rhe_def Let_def eq by auto
  qed
qed

lemma rnd_pos_eq: "0 < x \<Longrightarrow> rnd x = of_int (rhe (x / 2 powi (bexp x - 52))) * 2 powi (bexp x - 52)"
  by (simp add: rnd_def Let_def)

lemma rnd_binade:
  assumes "0 < x"
  shows "2 powi (bexp x) \<le> rnd x \<and> rnd x \<le> 2 powi (bexp x + 1)"
proof -
  define e where "e = bexp x"
  define u :: real where "u = 2 powi (e - 52)"
  have u: "0 < u" by (simp add: u_def)
  have b: "2 powi e \<le> x" "x < 2 powi (e + 1)" using bexp_bounds[OF assms] by (simp_all add: e_def)
  have p52: "2 powi e = 2 ^ 52 * u" by (simp add: u_def power_int_diff)
  have p53: "2 powi (e + 1) = 2 ^ 53 * u" by (simp add: u_def power_int_diff power_int_add)
  have q1: "of_int (2 ^ 52) \<le> x / u" using b(1) u p52 by (simp add: pos_le_divide_eq)
  have q2: "x / u \<le> of_int (2 ^ 53)" using b(2) u p53 by (simp add: pos_divide_le_eq)
  have r1: "2 ^ 52 \<le> rhe (x / u)" using rhe_mono[OF q1] by (simp only: rhe_of_int)
  have r2: "rhe (x / u) \<le> 2 ^ 53" using rhe_mono[OF q2] by (simp only: rhe_of_int)
  have "rnd x = of_int (rhe (x / u)) * u" using rnd_pos_eq[OF assms] by (simp add: u_def e_def)
  moreover have "(2::real) ^ 52 \<le> of_int (rhe (x / u))"
  proof -
    have "(of_int (2 ^ 52) :: real) \<le> of_int (rhe (x / u))" using r1 by (rule of_int_le_iff[THEN iffD2])
    then show ?thesis by simp
  qed
  then have "2 ^ 52 * u \<le> of_int (rhe (x / u)) * u"
    using u by (intro mult_right_mono) simp_all
  moreover have "(of_int (rhe (x / u)) :: real) \<le> 2 ^ 53"
  proof -
    have "(of_int (rhe (x / u)) :: real) \<le> of_int (2 ^ 53)" using r2 by (rule of_int_le_iff[THEN iffD2])
    then show ?thesis by simp
  qed
  then have "of_int (rhe (x / u)) * u \<le> 2 ^ 53 * u"
    using u by (intro mult_right_mono) simp_all
  ultimately show ?thesis using p52 p53 by (simp add: e_def)
qed

lemma bexp_mono: assumes "0 < x" "x \<le> y" shows "bexp x \<le> bexp y"
proof -
  have "2 powi (bexp x) \<le> x" using bexp_bounds assms by simp
  also have "x \<le> y" by fact
  also have "y < 2 powi (bexp y + 1)" using bexp_bounds assms by simp
  finally have "(2::real) powi (bexp x) < 2 powi (bexp y + 1)" .
  then have "bexp x < bexp y + 1"
    by (metis linorder_not_less one_le_numeral power_int_increasing)
  then show ?thesis by simp
qed

lemma rnd_nonneg: "0 \<le> x \<Longrightarrow> 0 \<le> rnd x"
proof (cases "x = 0")
  case True then show ?thesis by (simp add: rnd_def)
next
  case False
  assume "0 \<le> x"
  with False have "0 < x" by simp
  from rnd_binade[OF this] show ?thesis
    by (meson order_trans zero_le_numeral zero_le_power_int)
qed

lemma rnd_mono: assumes "0 \<le> x" "x \<le> y" shows "rnd x \<le> rnd y"
proof (cases "x = 0")
  case True
  then show ?thesis using rnd_nonneg[of y] assms by (simp add: rnd_def)
next
  case False
  then have x: "0 < x" and y: "0 < y" using assms by simp_all
  have le: "bexp x \<le> bexp y" using bexp_mono x assms(2) by simp
  show ?thesis
  proof (cases "bexp x = bexp y")
    case True
    have "x / 2 powi (bexp y - 52) \<le> y / 2 powi (bexp y - 52)"
      using assms(2) by (simp add: divide_right_mono)
    then have "rhe (x / 2 powi (bexp y - 52)) \<le> rhe (y / 2 powi (bexp y - 52))" by (rule rhe_mono)
    then show ?thesis
      unfolding rnd_pos_eq[OF x] rnd_pos_eq[OF y] True
      by (intro mult_right_mono) simp_all
  next
    case False
    then have "bexp x + 1 \<le> bexp y" using le by simp
    then have "(2::real) powi (bexp x + 1) \<le> 2 powi (bexp y)"
      by (intro power_int_increasing) simp_all
    then show ?thesis using rnd_binade[OF x] rnd_binade[OF y] by linarith
  qed
qed

lemma rnd_error: "\<bar>rnd x - x\<bar> \<le> \<bar>x\<bar> / 2 ^ 53"
proof -
  have pos: "\<bar>rnd x - x\<bar> \<le> x / 2 ^ 53" if x: "0 < x" for x
  proof -
    define u :: real where "u = 2 powi (bexp x - 52)"
    have u: "0 < u" by (simp add: u_def)
    have r: "rnd x = of_int (rhe (x / u)) * u" using rnd_pos_eq[OF x] by (simp add: u_def)
    have "rnd x - x = (of_int (rhe (x / u)) - x / u) * u"
      using u unfolding r by (simp add: left_diff_distrib)
    then have "\<bar>rnd x - x\<bar> = \<bar>of_int (rhe (x / u)) - x / u\<bar> * u"
      using u by (simp add: abs_mult)
    also have "\<dots> \<le> 1/2 * u" using rhe_near[of "x / u"] u by (intro mult_right_mono) simp_all
    also have "\<dots> = 2 powi (bexp x) / 2 ^ 53" by (simp add: u_def power_int_diff)
    also have "\<dots> \<le> x / 2 ^ 53" using bexp_bounds[OF x] by (simp add: divide_right_mono)
    finally show ?thesis .
  qed
  have neg: "rnd (- y) = - rnd y" for y by (simp add: rnd_def Let_def)
  consider "x = 0" | "0 < x" | "x < 0" by linarith
  then show ?thesis
  proof cases
    case 1 then show ?thesis by (simp add: rnd_def)
  next
    case 2 then show ?thesis using pos by simp
  next
    case 3
    then have "\<bar>rnd (- x) - (- x)\<bar> \<le> - x / 2 ^ 53" using pos[of "- x"] by simp
    then show ?thesis using 3 unfolding neg by simp
  qed
qed

text \<open>values of the literals\<close>

lemma bexp_eval: "bexp x = (if x \<le> 0 then 0 else if 2 \<le> x then bexp (x / 2) + 1 else if x < 1 then bexp (2 * x) - 1 else 0)"
  by (rule bexp.simps)

lemma js_half: "js (1/2) = 1/2"
  by (simp add: js_def rnd_def rhe_def Let_def bexp_eval)
lemma js_01: "js (1/10) = 3602879701896397 / 36028797018963968"
  by (simp add: js_def rnd_def rhe_def Let_def bexp_eval)
lemma js_095: "js (19/20) = 4278419646001971 / 4503599627370496"
  by (simp add: js_def rnd_def rhe_def Let_def bexp_eval)
lemma js_07: "js (7/10) = 3152519739159347 / 4503599627370496"
  by (simp add: js_def rnd_def rhe_def Let_def bexp_eval)
lemma js_06: "js (3/5) = 5404319552844595 / 9007199254740992"
  by (simp add: js_def rnd_def rhe_def Let_def bexp_eval)
lemma rnd_0: "rnd 0 = 0" by (simp add: rnd_def)
lemma rnd_1: "rnd 1 = 1" by (simp add: rnd_def rhe_def Let_def bexp_eval)
lemma rnd_100: "rnd 100 = 100" by (simp add: rnd_def rhe_def Let_def bexp_eval)
lemma rnd_js_01: "rnd (js 0.1) = js 0.1"
  by (simp add: js_01) (simp add: rnd_def rhe_def Let_def bexp_eval)

section \<open>Properties of the smoothing passes\<close>

declare sandwich_pass.simps [simp del] block_pass.simps [simp del]

definition no_worse :: "LineAnalysis \<Rightarrow> LineAnalysis \<Rightarrow> bool" where
  "no_worse a b = (content b = content a \<and> (isAI a \<longrightarrow> isAI b) \<and> confidence a \<le> confidence b
     \<and> prefix (reasons a) (reasons b))"

lemma no_worse_refl: "no_worse a a"
  by (simp add: no_worse_def)

lemma no_worse_trans: "no_worse a b \<Longrightarrow> no_worse b c \<Longrightarrow> no_worse a c"
  by (auto simp: no_worse_def)

lemma no_worse_sandwiched: "no_worse l (sandwiched l)"
  by (simp add: no_worse_def sandwiched_def)

lemma no_worse_extended: "no_worse l (extended l)"
  by (simp add: no_worse_def extended_def)

lemma list_all2_update_self:
  assumes "\<And>l. R l l" "i < length xs \<Longrightarrow> R (xs ! i) y"
  shows "list_all2 R xs (xs[i := y])"
proof -
  have "R (xs ! k) (xs[i := y] ! k)" if "k < length xs" for k
    using that assms by (cases "k = i") simp_all
  then show ?thesis by (simp add: list_all2_conv_all_nth)
qed

lemma sandwich_pass_rel:
  assumes rfl: "\<And>l. R l l"
    and trn: "\<And>a b c. R a b \<Longrightarrow> R b c \<Longrightarrow> R a c"
    and step: "\<And>l. trim (content l) \<noteq> [] \<Longrightarrow> \<not> isAI l \<Longrightarrow> R l (sandwiched l)"
  shows "list_all2 R xs (sandwich_pass i xs)"
proof (induction i xs rule: sandwich_pass.induct)
  case (1 i xs)
  show ?case
  proof (cases "i + 1 < length xs")
    case False
    then show ?thesis by (subst sandwich_pass.simps) (simp add: list_all2_refl rfl)
  next
    case True
    let ?c = "xs ! i"
    show ?thesis
    proof (cases "trim (content ?c) = []")
      case blank: True
      have "sandwich_pass i xs = sandwich_pass (i + 1) xs"
        using True blank by (subst sandwich_pass.simps) (simp add: Let_def)
      then show ?thesis using 1(1) True blank by simp
    next
      case nonblank: False
      show ?thesis
      proof (cases "\<not> isAI ?c \<and> isAI (xs ! (i - 1)) \<and> isAI (xs ! (i + 1)) \<and> \<not> isCreativeHumanCode (content ?c)")
        case flip: True
        have e: "sandwich_pass i xs = sandwich_pass (i + 1) (xs[i := sandwiched ?c])"
          using True nonblank flip by (subst sandwich_pass.simps) (simp add: Let_def)
        have a: "list_all2 R xs (xs[i := sandwiched ?c])"
          using nonblank flip by (intro list_all2_update_self rfl step) simp_all
        have b: "list_all2 R (xs[i := sandwiched ?c]) (sandwich_pass (i + 1) (xs[i := sandwiched ?c]))"
          using 1(2) True nonblank flip by simp
        show ?thesis unfolding e using list_all2_trans[of R R R, OF trn a b] .
      next
        case keep: False
        have "sandwich_pass i xs = sandwich_pass (i + 1) xs"
          using True nonblank keep by (subst sandwich_pass.simps) (auto simp: Let_def)
        then show ?thesis using 1(3) True nonblank keep by auto
      qed
    qed
  qed
qed

lemma block_pass_rel:
  assumes rfl: "\<And>l. R l l"
    and trn: "\<And>a b c. R a b \<Longrightarrow> R b c \<Longrightarrow> R a c"
    and step: "\<And>l. trim (content l) \<noteq> [] \<Longrightarrow> \<not> isAI l \<Longrightarrow> R l (extended l)"
  shows "list_all2 R xs (block_pass i c xs)"
proof (induction i c xs rule: block_pass.induct)
  case (1 i c xs)
  show ?case
  proof (cases "i < length xs")
    case False
    then show ?thesis by (subst block_pass.simps) (simp add: list_all2_refl rfl)
  next
    case True
    let ?l = "xs ! i"
    show ?thesis
    proof (cases "trim (content ?l) = []")
      case blank: True
      have "block_pass i c xs = block_pass (i + 1) 0 xs"
        using True blank by (subst block_pass.simps) (simp add: Let_def)
      then show ?thesis using 1(1) True blank by simp
    next
      case nonblank: False
      show ?thesis
      proof (cases "isAI ?l")
        case ai: True
        have "block_pass i c xs = block_pass (i + 1) (c + 1) xs"
          using True nonblank ai by (subst block_pass.simps) (simp add: Let_def)
        then show ?thesis using 1(2) True nonblank ai by simp
      next
        case human: False
        show ?thesis
        proof (cases "3 \<le> c \<and> \<not> isCreativeHumanCode (content ?l) \<and> aiContinues i xs")
          case flip: True
          have e: "block_pass i c xs = block_pass (i + 1) 0 (xs[i := extended ?l])"
            using True nonblank human flip by (subst block_pass.simps) (simp add: Let_def)
          have a: "list_all2 R xs (xs[i := extended ?l])"
            using nonblank human by (intro list_all2_update_self rfl step) simp_all
          have b: "list_all2 R (xs[i := extended ?l]) (block_pass (i + 1) 0 (xs[i := extended ?l]))"
            using 1(3) True nonblank human flip by simp
          show ?thesis unfolding e using list_all2_trans[of R R R, OF trn a b] .
        next
          case keep: False
          have "block_pass i c xs = block_pass (i + 1) 0 xs"
            using True nonblank human keep by (subst block_pass.simps) (auto simp: Let_def)
          then show ?thesis using 1(4) True nonblank human keep by auto
        qed
      qed
    qed
  qed
qed

lemma applyContextualAnalysis_rel:
  assumes rfl: "\<And>l. R l l"
    and trn: "\<And>a b c. R a b \<Longrightarrow> R b c \<Longrightarrow> R a c"
    and s1: "\<And>l. trim (content l) \<noteq> [] \<Longrightarrow> \<not> isAI l \<Longrightarrow> R l (sandwiched l)"
    and s2: "\<And>l. trim (content l) \<noteq> [] \<Longrightarrow> \<not> isAI l \<Longrightarrow> R l (extended l)"
  shows "list_all2 R xs (applyContextualAnalysis xs)"
  unfolding applyContextualAnalysis_def
  using list_all2_trans[of R R R, OF trn sandwich_pass_rel[of R, OF rfl trn s1]
      block_pass_rel[of R, OF rfl trn s2]] .

lemma no_worse_ai_count:
  "list_all2 no_worse xs ys \<Longrightarrow>
     length (filter isAI (nonEmptyLines xs)) \<le> length (filter isAI (nonEmptyLines ys))"
  by (induction rule: list_all2_induct) (auto simp: nonEmptyLines_def no_worse_def)


section \<open>Properties of the line verdicts\<close>

definition line_ok :: "LineAnalysis \<Rightarrow> bool" where
  "line_ok l = (if trim (content l) = [] then confidence l = js 0.5 \<and> \<not> isAI l
                else js 0.1 \<le> confidence l \<and> confidence l \<le> js 0.95)"

lemma js_order: "js 0.1 \<le> js 0.6" "js 0.6 \<le> js 0.95" "js 0.1 \<le> js 0.7" "js 0.7 \<le> js 0.95" "js 0.1 \<le> js 0.95"
  by (simp_all add: js_01 js_06 js_07 js_095)

lemma verdict_content: "content (verdict line acc) = line"
  by (cases acc) (simp add: verdict_def Let_def)

lemma verdict_lower: "js 0.1 \<le> confidence (verdict line acc)"
  using js_order(5) by (cases acc) (auto simp: verdict_def Let_def)

lemma verdict_upper: "confidence (verdict line acc) \<le> js 0.95"
  by (cases acc) (auto simp: verdict_def Let_def)

lemma analyzeLine_ok:
  assumes "analyzeLine t line n language = (Inr a, t')"
  shows "content a = line \<and> line_ok a"
proof (cases "trim line = []")
  case True
  then have "a = \<lparr> content = line, isAI = False, confidence = js 0.5, reasons = [''Empty line - neutral''] \<rparr>"
    using assms by (simp add: analyzeLine_def)
  then show ?thesis using True by (simp add: line_ok_def)
next
  case False
  obtain acc1 g where 1: "apply_patterns (AI_PATTERNS t) (trim line) (0, 0, []) = (acc1, g)"
    by (cases "apply_patterns (AI_PATTERNS t) (trim line) (0, 0, [])") 
  obtain ps where 2: "language_patterns (t\<lparr>AI_PATTERNS := g\<rparr>) language = Inr ps"
    using assms False 1 by (cases "language_patterns (t\<lparr>AI_PATTERNS := g\<rparr>) language")
      (simp_all add: analyzeLine_def Let_def)
  obtain acc2 sp where 3: "apply_patterns ps (trim line) acc1 = (acc2, sp)"
    by (cases "apply_patterns ps (trim line) acc1")
  have "a = verdict line (line_heuristics (trim line) acc2)"
    using assms False 1 2 3 by (simp add: analyzeLine_def Let_def)
  then show ?thesis
    using False verdict_content[of line] verdict_lower[of line] verdict_upper[of line]
    by (simp add: line_ok_def)
qed

lemma fadd_js01_lower:
  assumes "js 0.1 \<le> c"
  shows "js 0.1 \<le> fadd c (js 0.1)"
proof -
  have p: "0 \<le> js 0.1" by (simp add: js_01)
  have "rnd (js 0.1) \<le> rnd (c + js 0.1)" using assms p by (intro rnd_mono) simp_all
  then show ?thesis by (simp add: fadd_def rnd_js_01)
qed

lemma nudge_ok: "line_ok a \<Longrightarrow> line_ok (nudge s a)"
  using js_order(5) by (auto simp: nudge_def line_ok_def fadd_js01_lower min_def)

lemma nudge_content: "content (nudge s a) = content a"
  by (simp add: nudge_def)

lemma analyze_lines_ok:
  "analyze_lines t s language i ls = (Inr as, t') \<Longrightarrow> map content as = ls \<and> list_all line_ok as"
proof (induction ls arbitrary: t i as)
  case Nil
  then show ?case by simp
next
  case (Cons l ls)
  from Cons.prems obtain a t1 rest where
    a: "analyzeLine t l (i + 1) language = (Inr a, t1)"
    and r: "analyze_lines t1 s language (i + 1) ls = (Inr rest, t')"
    and as: "as = nudge s a # rest"
    by (auto split: prod.splits sum.splits)
  from Cons.IH[OF r] analyzeLine_ok[OF a] show ?case
    by (simp add: as nudge_ok nudge_content)
qed

lemma sandwiched_ok: "trim (content l) \<noteq> [] \<Longrightarrow> line_ok l \<Longrightarrow> line_ok (sandwiched l)"
  using js_order by (auto simp: line_ok_def sandwiched_def max_def)

lemma extended_ok: "trim (content l) \<noteq> [] \<Longrightarrow> line_ok l \<Longrightarrow> line_ok (extended l)"
  using js_order by (auto simp: line_ok_def extended_def max_def)

lemma applyContextualAnalysis_ok:
  assumes "list_all line_ok xs"
  shows "list_all line_ok (applyContextualAnalysis xs)"
proof -
  have "list_all2 (\<lambda>a b. line_ok a \<longrightarrow> line_ok b) xs (applyContextualAnalysis xs)"
    by (rule applyContextualAnalysis_rel) (auto intro: sandwiched_ok extended_ok)
  then show ?thesis using assms
    by (auto simp: list_all2_conv_all_nth list_all_length)
qed

lemma applyContextualAnalysis_content:
  "map content (applyContextualAnalysis xs) = map content xs"
proof -
  have "list_all2 (\<lambda>a b. content b = content a) xs (applyContextualAnalysis xs)"
    by (rule applyContextualAnalysis_rel) (auto simp: sandwiched_def extended_def)
  then show ?thesis
    by (auto simp: list_all2_conv_all_nth intro: nth_equalityI)
qed

lemma analyzeCode_result:
  assumes "analyzeCode t code language = (Inr r, t')"
  obtains as where "analyze_lines t (analyzeCodeStructure code) language 0 (split_on CHR 0x0A code) = (Inr as, t')"
    and "r = statistics (applyContextualAnalysis as)"
  using assms by (auto simp: analyzeCode_def Let_def split: prod.splits sum.splits)

lemma lineAnalysis_statistics: "lineAnalysis (statistics xs) = xs"
  by (simp add: statistics_def Let_def)

lemma js_decimal_bounds: "0.1 \<le> js 0.1" "js 0.95 \<le> 0.95" "js 0.5 = 0.5"
  by (simp_all add: js_01 js_095 js_half)

lemma line_ok_bounds:
  assumes "line_ok l"
  shows "(trim (content l) \<noteq> [] \<longrightarrow>
             js 0.1 \<le> confidence l \<and> confidence l \<le> js 0.95
             \<and> 0.1 \<le> confidence l \<and> confidence l \<le> 0.95)
          \<and> (trim (content l) = [] \<longrightarrow> confidence l = 0.5 \<and> \<not> isAI l)"
proof (cases "trim (content l) = []")
  case True
  then have "confidence l = js 0.5 \<and> \<not> isAI l" using assms unfolding line_ok_def by simp
  then show ?thesis using True js_decimal_bounds(3) by simp
next
  case False
  then have b: "js 0.1 \<le> confidence l" "confidence l \<le> js 0.95"
    using assms unfolding line_ok_def by simp_all
  have "0.1 \<le> confidence l" using b(1) js_decimal_bounds(1) by (rule order_trans[rotated])
  moreover have "confidence l \<le> 0.95" using b(2) js_decimal_bounds(2) by (rule order_trans)
  ultimately show ?thesis using False b by simp
qed

lemma foldl_confidence:
  "foldl (\<lambda>sum line. fadd sum (confidence line)) z xs = foldl fadd z (map confidence xs)"
  by (induction xs arbitrary: z) simp_all

lemma length_filter_not:
  "length (filter (\<lambda>l. \<not> P l) zs) = length zs - length (filter P zs)"
  using sum_length_filter_compl[of P zs] by simp

lemma statistics_fields:
  "totalLines (statistics ys) = length (filter (\<lambda>l. trim (content l) \<noteq> []) ys)"
  "aiLines (statistics ys) = length (filter (\<lambda>l. trim (content l) \<noteq> [] \<and> isAI l) ys)"
  "humanLines (statistics ys) = length (filter (\<lambda>l. trim (content l) \<noteq> [] \<and> \<not> isAI l) ys)"
proof -
  show "totalLines (statistics ys) = length (filter (\<lambda>l. trim (content l) \<noteq> []) ys)"
    by (simp add: statistics_def Let_def nonEmptyLines_def)
  show "aiLines (statistics ys) = length (filter (\<lambda>l. trim (content l) \<noteq> [] \<and> isAI l) ys)"
    by (simp add: statistics_def Let_def nonEmptyLines_def)
  have "length (filter (\<lambda>l. \<not> isAI l) (nonEmptyLines ys))
        = length (nonEmptyLines ys) - length (filter isAI (nonEmptyLines ys))"
    by (rule length_filter_not)
  then show "humanLines (statistics ys) = length (filter (\<lambda>l. trim (content l) \<noteq> [] \<and> \<not> isAI l) ys)"
    by (simp add: statistics_def Let_def nonEmptyLines_def)
qed

lemma statistics_confidence:
  "overallConfidence (statistics ys) =
     (let confidences = map confidence (filter (\<lambda>l. trim (content l) \<noteq> []) ys)
      in if confidences = [] then 0.5
         else fdiv (foldl fadd 0 confidences) (of_nat (length confidences)))"
  unfolding statistics_def Let_def nonEmptyLines_def foldl_confidence
  using js_decimal_bounds(3) by simp


section \<open>The filter scenario\<close>

text \<open>
  C9. Of \<open>src/components/ui/button.tsx\<close>, \<open>src/index.ts\<close>, \<open>README.md\<close> and
  \<open>src/utils/helpers.ts\<close>, the filter \<open>shouldAnalyzeFile\<close> accepts exactly the last one:
  the first matches the first exclusion pattern (the framework UI component path, index 0),
  the second the entry-point pattern (index 31) with a recognised extension, and the third
  has the extension \<open>.md\<close>, which is no code extension.
\<close>

theorem filter_scenario:
  "\<not> shouldAnalyzeFile ''src/components/ui/button.tsx''
   \<and> \<not> shouldAnalyzeFile ''src/index.ts''
   \<and> \<not> shouldAnalyzeFile ''README.md''
   \<and> shouldAnalyzeFile ''src/utils/helpers.ts''
   \<and> List.member codeExtensions (the (extension ''src/components/ui/button.tsx''))
   \<and> matches (excludePatterns ! 0) [] ''src/components/ui/button.tsx''
   \<and> excludePatterns ! 0 = Str ''/components/ui/''
   \<and> List.member codeExtensions (the (extension ''src/index.ts''))
   \<and> matches (excludePatterns ! 31) [] ''src/index.ts''
   \<and> excludePatterns ! 31 = entry_point_pattern
   \<and> extension ''README.md'' = Some ''.md''
   \<and> \<not> List.member codeExtensions ''.md''"
  by code_simp

section \<open>The smoothing pass only raises\<close>

text \<open>
  C10. For every sequence of line verdicts, \<open>applyContextualAnalysis\<close> keeps the number of
  entries and every entry's content; an entry that is AI stays AI (the flag only ever goes from
  Human to AI); no confidence gets lower; the rationale an entry had is a prefix of the one it
  has afterwards (entries are only appended); hence the number of AI entries among the
  non-blank ones does not fall.
\<close>

theorem smoothing_only_raises:
  fixes xs :: "LineAnalysis list"
  defines "ys \<equiv> applyContextualAnalysis xs"
  shows "length ys = length xs
    \<and> (\<forall>i < length xs.
          content (ys ! i) = content (xs ! i)
          \<and> (isAI (xs ! i) \<longrightarrow> isAI (ys ! i))
          \<and> confidence (xs ! i) \<le> confidence (ys ! i)
          \<and> prefix (reasons (xs ! i)) (reasons (ys ! i)))
    \<and> length (filter isAI (nonEmptyLines xs)) \<le> length (filter isAI (nonEmptyLines ys))"
proof -
  have r: "list_all2 no_worse xs ys"
    unfolding ys_def
    by (rule applyContextualAnalysis_rel)
       (auto intro: no_worse_refl no_worse_trans no_worse_sandwiched no_worse_extended)
  then have "length ys = length xs" by (simp add: list_all2_lengthD)
  moreover have "\<forall>i < length xs. no_worse (xs ! i) (ys ! i)"
    using r by (simp add: list_all2_conv_all_nth)
  ultimately show ?thesis using no_worse_ai_count[OF r] by (simp add: no_worse_def)
qed

section \<open>Confidence of a line verdict\<close>

text \<open>
  C8. In the result of \<open>analyzeCode\<close> there is one verdict per line of the text, in order.
  A verdict whose content is not blank has a confidence between the binary64 values of
  \<open>0.1\<close> and \<open>0.95\<close>, hence in the interval [0.1, 0.95]; a verdict whose content is
  blank has confidence 0.5 and is not AI. The counts and the mean confidence are taken over
  the non-blank verdicts only.
\<close>

theorem line_confidence_bounds:
  assumes "analyzeCode t code language = (Inr r, t')"
  shows "map content (lineAnalysis r) = split_on CHR 0x0A code
    \<and> (\<forall>l \<in> set (lineAnalysis r).
          (trim (content l) \<noteq> [] \<longrightarrow>
             js 0.1 \<le> confidence l \<and> confidence l \<le> js 0.95
             \<and> 0.1 \<le> confidence l \<and> confidence l \<le> 0.95)
          \<and> (trim (content l) = [] \<longrightarrow> confidence l = 0.5 \<and> \<not> isAI l))
    \<and> totalLines r = length (filter (\<lambda>l. trim (content l) \<noteq> []) (lineAnalysis r))
    \<and> aiLines r = length (filter (\<lambda>l. trim (content l) \<noteq> [] \<and> isAI l) (lineAnalysis r))
    \<and> humanLines r = length (filter (\<lambda>l. trim (content l) \<noteq> [] \<and> \<not> isAI l) (lineAnalysis r))
    \<and> overallConfidence r =
        (let confidences = map confidence (filter (\<lambda>l. trim (content l) \<noteq> []) (lineAnalysis r))
         in if confidences = [] then 0.5
            else fdiv (foldl fadd 0 confidences) (of_nat (length confidences)))"
proof -
  from assms obtain as where
    as: "analyze_lines t (analyzeCodeStructure code) language 0 (split_on CHR 0x0A code) = (Inr as, t')"
    and r: "r = statistics (applyContextualAnalysis as)"
    by (rule analyzeCode_result)
  let ?ys = "applyContextualAnalysis as"
  have la: "lineAnalysis r = ?ys" by (simp add: r lineAnalysis_statistics)
  have c: "map content ?ys = split_on CHR 0x0A code"
    using analyze_lines_ok[OF as] by (simp add: applyContextualAnalysis_content)
  have ok: "list_all line_ok ?ys"
    using analyze_lines_ok[OF as] by (simp add: applyContextualAnalysis_ok)
  have lines: "\<forall>l \<in> set ?ys.
          (trim (content l) \<noteq> [] \<longrightarrow>
             js 0.1 \<le> confidence l \<and> confidence l \<le> js 0.95
             \<and> 0.1 \<le> confidence l \<and> confidence l \<le> 0.95)
          \<and> (trim (content l) = [] \<longrightarrow> confidence l = 0.5 \<and> \<not> isAI l)"
  proof
    fix l assume "l \<in> set ?ys"
    then have "line_ok l" using ok unfolding list_all_iff by simp
    then show "(trim (content l) \<noteq> [] \<longrightarrow>
             js 0.1 \<le> confidence l \<and> confidence l \<le> js 0.95
             \<and> 0.1 \<le> confidence l \<and> confidence l \<le> 0.95)
          \<and> (trim (content l) = [] \<longrightarrow> confidence l = 0.5 \<and> \<not> isAI l)"
      by (rule line_ok_bounds)
  qed
  show ?thesis unfolding r lineAnalysis_statistics
    by (intro conjI c lines statistics_fields statistics_confidence)
qed

end
